theory Spec2Isabelle
  imports Complex_Main "HOL-Library.Multiset"
begin

section \<open>Activity recognition on spectrograms: a model of spectrogram.py\<close>

text \<open>
  The script is a linear pipeline over numerical libraries. Arrays are lists indexed along
  their first axis, floating-point numbers are real numbers, and every exception the
  script can raise is a value of type \<open>error\<close>. Routines of numpy, scipy and torch are
  modelled by their documented behaviour; functions of the module \<open>utils\<close> (HMM fitting,
  Viterbi decoding, the scores) are parameters.
\<close>

subsection \<open>Exceptions and Python's range and slices\<close>

datatype error = ValueError | IndexError | RuntimeError

definition thenE :: "error + 'a \<Rightarrow> ('a \<Rightarrow> error + 'b) \<Rightarrow> error + 'b" where
  "thenE r f = (case r of Inl e \<Rightarrow> Inl e | Inr x \<Rightarrow> f x)"

text \<open>\<open>range(0, stop, step)\<close> for a positive step: the offsets \<open>0, step, 2 step, ...\<close> below
  \<open>stop\<close>.\<close>

definition py_range :: "nat \<Rightarrow> nat \<Rightarrow> nat list" where
  "py_range stop step = map (\<lambda>j. j * step) [0..<(stop + step - 1) div step]"

text \<open>The slice \<open>xs[i:i+k]\<close>; a slice never raises, it is cut at the end of the list.\<close>

definition slice :: "'a list \<Rightarrow> nat \<Rightarrow> nat \<Rightarrow> 'a list" where
  "slice xs i k = take k (drop i xs)"

subsection \<open>Holding out participants (lines 123-132)\<close>

text \<open>\<open>np.isin(element, test_elements)\<close>: the mask of the entries that occur in
  \<open>test_elements\<close>.\<close>

definition isin :: "int list \<Rightarrow> int list \<Rightarrow> bool list" where
  "isin element test_elements = map (\<lambda>p. p \<in> set test_elements) element"

definition pids_test :: "int list" where
  "pids_test = [2, 3]"

definition mask_test :: "int list \<Rightarrow> bool list" where
  "mask_test pid = isin pid pids_test"

definition mask_train :: "int list \<Rightarrow> bool list" where
  "mask_train pid = map Not (mask_test pid)"

text \<open>Boolean indexing \<open>a[mask]\<close>: the rows whose mask entry is true, in order. numpy
  raises IndexError when the mask is not as long as the array.\<close>

definition bool_index :: "'a list \<Rightarrow> bool list \<Rightarrow> error + 'a list" where
  "bool_index a msk =
     (if length msk \<noteq> length a then Inl IndexError
      else Inr (map fst (filter snd (zip a msk))))"

text \<open>Modelled from the spec: \<open>utils.ArrayFromMask\<close> is not among the source files. The
  script uses it as the view of the spectrograms selected by a mask, so it is the
  boolean indexing of the rows of \<open>Z\<close>.\<close>

definition ArrayFromMask :: "'z list \<Rightarrow> bool list \<Rightarrow> error + 'z list" where
  "ArrayFromMask Z msk = bool_index Z msk"

record 'z split =
  y_train :: "nat list"
  y_test :: "nat list"
  pid_train :: "int list"
  pid_test :: "int list"
  Z_train :: "'z list"
  Z_test :: "'z list"

definition hold_out :: "'z list \<Rightarrow> nat list \<Rightarrow> int list \<Rightarrow> error + 'z split" where
  "hold_out Z y pid =
     thenE (bool_index y (mask_train pid)) (\<lambda>ytr.
     thenE (bool_index y (mask_test pid)) (\<lambda>yte.
     thenE (bool_index pid (mask_train pid)) (\<lambda>ptr.
     thenE (bool_index pid (mask_test pid)) (\<lambda>pte.
     thenE (ArrayFromMask Z (mask_train pid)) (\<lambda>ztr.
     thenE (ArrayFromMask Z (mask_test pid)) (\<lambda>zte.
       Inr \<lparr>y_train = ytr, y_test = yte, pid_train = ptr, pid_test = pte,
            Z_train = ztr, Z_test = zte\<rparr>))))))"

subsection \<open>Mini-batches (create_dataloader, lines 198-213)\<close>

text \<open>Indexing with an index array, \<open>a[idxs]\<close>: the rows at the given positions, in the
  order of the indices. numpy raises IndexError when an index is out of bounds.\<close>

definition take_rows :: "'a list \<Rightarrow> nat list \<Rightarrow> error + 'a list" where
  "take_rows a idxs =
     (if list_all (\<lambda>i. i < length a) idxs then Inr (map ((!) a) idxs) else Inl IndexError)"

text \<open>The order of the epoch. \<open>draw\<close> stands for the outcome of
  \<open>np.random.permutation\<close> at this call; it is used only when \<open>shuffle\<close> is set.\<close>

definition epoch_idxs :: "(nat list \<Rightarrow> nat list) \<Rightarrow> nat \<Rightarrow> bool \<Rightarrow> nat list" where
  "epoch_idxs draw n shuffle = (if shuffle then draw [0..<n] else [0..<n])"

text \<open>The index batches \<open>idxs[i:i+batch_size]\<close> for \<open>i\<close> in
  \<open>range(0, len(idxs), batch_size)\<close>. Python's \<open>range\<close> raises ValueError for a step of
  zero and is empty for a negative step.\<close>

definition index_batches :: "nat list \<Rightarrow> int \<Rightarrow> error + nat list list" where
  "index_batches idxs batch_size =
     (if batch_size = 0 then Inl ValueError
      else if batch_size < 0 then Inr []
      else Inr (map (\<lambda>i. slice idxs i (nat batch_size))
                  (py_range (length idxs) (nat batch_size))))"

text \<open>One item of the iterator: \<open>Z[idxs_batch]\<close> alone when no labels are given, otherwise
  the pair with \<open>y[idxs_batch]\<close>.\<close>

definition load_batch ::
  "'z list \<Rightarrow> 'y list option \<Rightarrow> nat list \<Rightarrow> error + ('z list \<times> 'y list option)" where
  "load_batch Z y idxs_batch =
     thenE (take_rows Z idxs_batch) (\<lambda>Z_batch.
       case y of
         None \<Rightarrow> Inr (Z_batch, None)
       | Some yv \<Rightarrow> thenE (take_rows yv idxs_batch) (\<lambda>y_batch. Inr (Z_batch, Some y_batch)))"

text \<open>The generator is lazy: an item that raises does so when the consumer reaches it, so
  the iterator is the list of the items' results, in order.\<close>

definition create_dataloader ::
  "(nat list \<Rightarrow> nat list) \<Rightarrow> 'z list \<Rightarrow> 'y list option \<Rightarrow> int \<Rightarrow> bool
     \<Rightarrow> error + (error + ('z list \<times> 'y list option)) list" where
  "create_dataloader draw Z y batch_size shuffle =
     thenE (index_batches (epoch_idxs draw (length Z) shuffle) batch_size)
       (\<lambda>batches. Inr (map (load_batch Z y) batches))"

subsection \<open>Forward pass by batches (lines 215-226)\<close>

text \<open>\<open>torch.cat\<close> raises RuntimeError on an empty list of tensors.\<close>

definition torch_cat :: "'a list list \<Rightarrow> error + 'a list" where
  "torch_cat Y = (if Y = [] then Inl RuntimeError else Inr (concat Y))"

text \<open>The loop of \<open>forward_by_batches\<close> over the items. The network is in evaluation
  mode there (\<open>cnn.eval()\<close>), where it maps every instance of a batch on its own:
  \<open>cnn\<close> is its function on one instance.\<close>

fun forward_items ::
  "('z \<Rightarrow> 'o) \<Rightarrow> (error + ('z list \<times> 'y list option)) list \<Rightarrow> error + 'o list list" where
  "forward_items cnn [] = Inr []"
| "forward_items cnn (item # items) =
     thenE item (\<lambda>(z, _).
       thenE (forward_items cnn items) (\<lambda>Y. Inr (map cnn z # Y)))"

definition forward_by_batches :: "('z \<Rightarrow> 'o) \<Rightarrow> 'z list \<Rightarrow> error + 'o list" where
  "forward_by_batches cnn Z =
     thenE (create_dataloader (\<lambda>idxs. idxs) Z (None :: unit list option) 1024 False)
       (\<lambda>items. thenE (forward_items cnn items) torch_cat)"

subsection \<open>Scores, probabilities and classes\<close>

text \<open>\<open>torch.argmax(Y_pred, dim=1)\<close> on one row: the first position of the greatest
  entry.\<close>

definition argmax :: "real list \<Rightarrow> nat" where
  "argmax xs = length (takeWhile (\<lambda>v. v \<noteq> Max (set xs)) xs)"

text \<open>The two kinds of array that the script hands to the HMM routines of \<open>utils\<close>: a
  vector of class labels, one per window, or a matrix of class probabilities, one row per
  window.\<close>

datatype ndarray = Labels "nat list" | Probs "real list list"

text \<open>
  What the script takes from outside.
  \<^item> \<open>scores m z\<close> is the output of the network with the weights \<open>m\<close> on the window \<open>z\<close> in
    evaluation mode.
  \<^item> \<open>softmax\<close> is \<open>F.softmax(Y_pred, dim=1)\<close> on one row, in the floating-point arithmetic
    of torch; nothing is assumed about its values.
  \<^item> \<open>optimizer_step m x t\<close> is the arithmetic of lines 289-296 on a batch that the network
    and the loss accept: the new weights and \<open>loss.item()\<close>.
  \<^item> \<open>NUM_CLASSES\<close> and the last four are a constant and functions of the module \<open>utils\<close>,
    which is not among the source files; \<open>'h\<close> is the triple \<open>prior, emission, transition\<close>.
\<close>

record ('m, 'z, 'h) env =
  scores :: "'m \<Rightarrow> 'z \<Rightarrow> real list"
  softmax :: "real list \<Rightarrow> real list"
  optimizer_step :: "'m \<Rightarrow> 'z list \<Rightarrow> nat list \<Rightarrow> 'm \<times> real"
  NUM_CLASSES :: nat
  utils_train_hmm :: "ndarray \<Rightarrow> nat list \<Rightarrow> 'h"
  utils_viterbi :: "ndarray \<Rightarrow> 'h \<Rightarrow> nat list"
  cohen_kappa_score :: "nat list \<Rightarrow> nat list \<Rightarrow> int list option \<Rightarrow> real"
  accuracy_score :: "nat list \<Rightarrow> nat list \<Rightarrow> int list option \<Rightarrow> real"

subsection \<open>HMM fitting and evaluation (lines 228-245)\<close>

definition train_hmm :: "('m, 'z, 'h) env \<Rightarrow> 'm \<Rightarrow> 'z list \<Rightarrow> nat list \<Rightarrow> error + 'h" where
  "train_hmm env m Z y =
     thenE (forward_by_batches (scores env m) Z) (\<lambda>Y_pred.
       Inr (utils_train_hmm env (Probs (map (softmax env) Y_pred)) y))"

text \<open>Lines 240-241 of evaluate_model: from the probabilities of line 239 to the value of
  \<open>y_pred\<close> that line 242 hands to \<open>utils.viterbi\<close>.\<close>

definition viterbi_input :: "real list list \<Rightarrow> ndarray" where
  "viterbi_input probabilities = Labels (map argmax probabilities)"

text \<open>Lines 238-242: the smoothed predictions.\<close>

definition smoothed_predictions ::
  "('m, 'z, 'h) env \<Rightarrow> 'm \<Rightarrow> 'h \<Rightarrow> 'z list \<Rightarrow> error + nat list" where
  "smoothed_predictions env m hmm Z =
     thenE (forward_by_batches (scores env m) Z) (\<lambda>Y_pred.
       Inr (utils_viterbi env (viterbi_input (map (softmax env) Y_pred)) hmm))"

definition evaluate_model ::
  "('m, 'z, 'h) env \<Rightarrow> 'm \<Rightarrow> 'h \<Rightarrow> 'z list \<Rightarrow> nat list \<Rightarrow> int list option
     \<Rightarrow> error + real \<times> real" where
  "evaluate_model env m hmm Z y pid =
     thenE (smoothed_predictions env m hmm Z) (\<lambda>y_pred.
       Inr (cohen_kappa_score env y y_pred pid, accuracy_score env y y_pred pid))"

subsection \<open>The network (lines 143-184)\<close>

text \<open>The layers of \<open>nn.Sequential\<close>, with the arguments the script gives them:
  \<open>Conv2d in out kernel stride padding bias\<close>, \<open>BatchNorm2d features\<close>, \<open>ReLU inplace\<close>.\<close>

datatype layer =
    Conv2d nat nat "nat \<times> nat" nat nat bool
  | BatchNorm2d nat
  | ReLU bool

definition CNN :: "nat \<Rightarrow> nat \<Rightarrow> nat \<Rightarrow> layer list" where
  "CNN output_size in_channels num_filters_init =
     [Conv2d in_channels num_filters_init (5, 4) 2 1 False,
      BatchNorm2d num_filters_init,
      ReLU True,
      Conv2d num_filters_init (num_filters_init * 2) (4, 3) 2 1 False,
      BatchNorm2d (num_filters_init * 2),
      ReLU True,
      Conv2d (num_filters_init * 2) (num_filters_init * 4) (4, 4) 2 1 False,
      BatchNorm2d (num_filters_init * 4),
      ReLU True,
      Conv2d (num_filters_init * 4) (num_filters_init * 8) (4, 4) 2 1 False,
      BatchNorm2d (num_filters_init * 8),
      ReLU True,
      Conv2d (num_filters_init * 8) (num_filters_init * 16) (4, 4) 2 1 False,
      BatchNorm2d (num_filters_init * 16),
      ReLU True,
      Conv2d (num_filters_init * 16) (num_filters_init * 32) (4, 4) 1 0 False,
      BatchNorm2d (num_filters_init * 32),
      ReLU True,
      Conv2d (num_filters_init * 32) output_size (1, 1) 1 0 True]"

text \<open>
  The shape \<open>(N, C, H, W)\<close> that a layer of torch returns for an input of a given shape.
  A convolution needs the channels it was built for and an input, with its padding, not
  smaller than the kernel; its output has \<open>(H + 2 padding - kernel) div stride + 1\<close> rows.
  Batch normalisation keeps the shape; in training mode it raises ValueError (``Expected
  more than 1 value per channel when training'') when a channel holds a single value,
  that is when \<open>N * H * W = 1\<close>.
\<close>

fun layer_shape ::
  "bool \<Rightarrow> layer \<Rightarrow> nat \<times> nat \<times> nat \<times> nat \<Rightarrow> error + nat \<times> nat \<times> nat \<times> nat" where
  "layer_shape train_mode (Conv2d c_in c_out (kh, kw) stride padding bias) (N, C, H, W) =
     (if C \<noteq> c_in \<or> stride = 0 \<or> H + 2 * padding < kh \<or> W + 2 * padding < kw
      then Inl RuntimeError
      else Inr (N, c_out, (H + 2 * padding - kh) div stride + 1,
                (W + 2 * padding - kw) div stride + 1))"
| "layer_shape train_mode (BatchNorm2d features) (N, C, H, W) =
     (if C \<noteq> features then Inl RuntimeError
      else if train_mode \<and> N * (H * W) = 1 then Inl ValueError
      else Inr (N, C, H, W))"
| "layer_shape train_mode (ReLU inplace) shape = Inr shape"

fun sequential ::
  "bool \<Rightarrow> layer list \<Rightarrow> nat \<times> nat \<times> nat \<times> nat \<Rightarrow> error + nat \<times> nat \<times> nat \<times> nat" where
  "sequential train_mode [] shape = Inr shape"
| "sequential train_mode (l # ls) shape =
     thenE (layer_shape train_mode l shape) (sequential train_mode ls)"

text \<open>\<open>forward\<close> (line 184): \<open>self.cnn(x).view(x.shape[0], -1)\<close>. The view raises
  RuntimeError when the remaining dimension cannot be inferred: for a first dimension of
  zero, or one that does not divide the number of elements.\<close>

definition forward ::
  "bool \<Rightarrow> layer list \<Rightarrow> nat \<times> nat \<times> nat \<times> nat \<Rightarrow> error + nat \<times> nat" where
  "forward train_mode cnn x =
     thenE (sequential train_mode cnn x) (\<lambda>(N', C', H', W').
       let x_shape_0 = fst x; numel = N' * C' * H' * W'
       in if x_shape_0 = 0 \<or> numel mod x_shape_0 \<noteq> 0 then Inl RuntimeError
          else Inr (x_shape_0, numel div x_shape_0))"

subsection \<open>Training (lines 257-317)\<close>

definition num_filters_init :: nat where
  "num_filters_init = 8"

definition in_channels :: nat where
  "in_channels = 3"

definition num_epoch :: nat where
  "num_epoch = 10"

definition batch_size :: int where
  "batch_size = 32"

text \<open>
  One iteration of lines 288-296 on a batch \<open>x\<close> of spectrograms of shape (3, 129, 126)
  with the targets \<open>t\<close>. The network is in training mode and is the one of line 264, with
  \<open>output_size = utils.NUM_CLASSES\<close>: where its forward pass raises, the iteration raises.
  \<open>nn.CrossEntropyLoss\<close> raises ValueError when the targets are not as many as the rows
  of the output, and rejects a target that is not the index of a class (an IndexError on
  the CPU). Otherwise the iteration returns the new weights and \<open>loss.item()\<close>.
\<close>

definition sgd_step ::
  "('m, 'z, 'h) env \<Rightarrow> 'm \<Rightarrow> 'z list \<Rightarrow> nat list \<Rightarrow> error + 'm \<times> real" where
  "sgd_step env m x t =
     thenE (forward True (CNN (NUM_CLASSES env) in_channels num_filters_init)
              (length x, 3, 129, 126))
       (\<lambda>(rows, classes).
          if length t \<noteq> rows then Inl ValueError
          else if \<not> list_all (\<lambda>c. c < classes) t then Inl IndexError
          else Inr (optimizer_step env m x t))"

text \<open>The variables of the training loop.\<close>

record 'm training =
  model :: 'm
  loss_history :: "real list"
  kappa_history_train :: "real list"
  kappa_history_test :: "real list"
  accuracy_history_train :: "real list"
  accuracy_history_test :: "real list"

text \<open>The inner loop (lines 287-296) over the items of the dataloader.\<close>

fun train_items ::
  "('m, 'z, 'h) env \<Rightarrow> 'm training \<Rightarrow> (error + ('z list \<times> nat list option)) list
     \<Rightarrow> error + 'm training" where
  "train_items env s [] = Inr s"
| "train_items env s (item # items) =
     thenE item (\<lambda>(x, target).
       case target of
         None \<Rightarrow> Inl ValueError
       | Some t \<Rightarrow>
           thenE (sgd_step env (model s) x t) (\<lambda>(m', loss).
             train_items env (s\<lparr>model := m', loss_history := loss_history s @ [loss]\<rparr>)
               items))"

text \<open>One turn of the outer loop (lines 286-317). \<open>draw\<close> is the outcome of
  \<open>np.random.permutation\<close> in this epoch.\<close>

definition epoch ::
  "('m, 'z, 'h) env \<Rightarrow> (nat list \<Rightarrow> nat list) \<Rightarrow> 'z split \<Rightarrow> 'm training
     \<Rightarrow> error + 'm training" where
  "epoch env draw sp s =
     thenE (create_dataloader draw (Z_train sp) (Some (y_train sp)) batch_size True)
       (\<lambda>dataloader.
     thenE (train_items env s dataloader) (\<lambda>s1.
     thenE (train_hmm env (model s1) (Z_train sp) (y_train sp)) (\<lambda>hmm.
     thenE (evaluate_model env (model s1) hmm (Z_train sp) (y_train sp) (Some (pid_train sp)))
       (\<lambda>(kappa, accuracy).
     thenE (evaluate_model env (model s1) hmm (Z_test sp) (y_test sp) (Some (pid_test sp)))
       (\<lambda>(kappa', accuracy').
       Inr (s1\<lparr>kappa_history_train := kappa_history_train s1 @ [kappa],
                accuracy_history_train := accuracy_history_train s1 @ [accuracy],
                kappa_history_test := kappa_history_test s1 @ [kappa'],
                accuracy_history_test := accuracy_history_test s1 @ [accuracy']\<rparr>))))))"

fun run_epochs ::
  "('m, 'z, 'h) env \<Rightarrow> (nat \<Rightarrow> nat list \<Rightarrow> nat list) \<Rightarrow> 'z split \<Rightarrow> 'm training
     \<Rightarrow> nat list \<Rightarrow> error + 'm training" where
  "run_epochs env draws sp s [] = Inr s"
| "run_epochs env draws sp s (i # rest) =
     thenE (epoch env (draws i) sp s) (\<lambda>s'. run_epochs env draws sp s' rest)"

text \<open>The script from line 282 on: empty histories, then \<open>for i in range(num_epoch)\<close>.
  \<open>draws i\<close> is the outcome of \<open>np.random.permutation\<close> in epoch \<open>i\<close>.\<close>

definition training ::
  "('m, 'z, 'h) env \<Rightarrow> (nat \<Rightarrow> nat list \<Rightarrow> nat list) \<Rightarrow> 'z split \<Rightarrow> 'm
     \<Rightarrow> error + 'm training" where
  "training env draws sp m0 =
     run_epochs env draws sp
       \<lparr>model = m0, loss_history = [], kappa_history_train = [], kappa_history_test = [],
        accuracy_history_train = [], accuracy_history_test = []\<rparr>
       [0..<num_epoch]"

subsection \<open>Spectrograms (lines 78-90)\<close>

definition NPERSEG :: nat where
  "NPERSEG = 256"

definition NOVERLAP :: nat where
  "NOVERLAP = 232"

text \<open>
  \<open>scipy.signal.stft(x, nperseg=..., noverlap=..., axis=-1, detrend='constant')\<close> is a
  library routine; its shapes are modelled after its documented defaults
  (\<open>boundary='zeros'\<close>, \<open>padded=True\<close>, one-sided spectrum). For an input \<open>x\<close> of shape
  \<open>(n, C, L)\<close>: an empty input is answered with empty arrays of the shape of \<open>x\<close>; a window
  longer than the signal is cut to its length; an overlap that is not smaller than the
  window raises ValueError; the signal is extended by half a window of zeros at both ends
  and then padded with zeros to a whole number of steps. The result has shape
  \<open>(n, C, nperseg div 2 + 1, segments)\<close>.
\<close>

definition stft_segments :: "nat \<Rightarrow> nat \<Rightarrow> nat \<Rightarrow> nat" where
  "stft_segments nperseg noverlap L =
     (let nstep = nperseg - noverlap;
          extended = L + 2 * (nperseg div 2);
          nadd = ((nstep - (extended - nperseg) mod nstep) mod nstep) mod nperseg
      in (extended + nadd - noverlap) div nstep)"

definition stft_shape :: "nat \<Rightarrow> nat \<Rightarrow> nat \<times> nat \<times> nat \<Rightarrow> error + nat list" where
  "stft_shape nperseg noverlap x_shape =
     (case x_shape of (n, C, L) \<Rightarrow>
        if n * C * L = 0 then Inr [n, C, L]
        else if nperseg = 0 \<or> min nperseg L \<le> noverlap then Inl ValueError
        else Inr [n, C, min nperseg L div 2 + 1, stft_segments (min nperseg L) noverlap L])"

text \<open>The values of the transform are a parameter: \<open>coef nperseg noverlap s f t\<close> is the
  coefficient at frequency bin \<open>f\<close> and segment \<open>t\<close> of
  \<open>scipy.signal.stft(s, nperseg=nperseg, noverlap=noverlap, axis=-1, detrend='constant')\<close> on
  the one signal \<open>s\<close>, the transform being taken along the last axis, signal by signal.\<close>

type_synonym stft_coefficient = "nat \<Rightarrow> nat \<Rightarrow> real list \<Rightarrow> nat \<Rightarrow> nat \<Rightarrow> complex"

definition stft ::
  "stft_coefficient \<Rightarrow> nat \<Rightarrow> nat \<Rightarrow> nat \<times> nat \<times> nat
     \<Rightarrow> real list list list \<Rightarrow> error + nat list \<times> complex list list list list" where
  "stft coef nperseg noverlap x_shape x =
     thenE (stft_shape nperseg noverlap x_shape) (\<lambda>shape.
       case shape of
         [n, C, F, T] \<Rightarrow>
           Inr (shape,
                map (map (\<lambda>s. map (\<lambda>f. map (\<lambda>t. coef nperseg noverlap s f t) [0..<T])
                  [0..<F])) x)
       | _ \<Rightarrow> Inr (shape, map (map (\<lambda>s. [])) x))"

text \<open>Line 87, \<open>np.log(np.abs(Z_batch) + 1e-16)\<close>, works entry by entry in floating-point
  arithmetic: \<open>log_abs z\<close> is its value on the entry \<open>z\<close>, a parameter like the
  coefficients.\<close>

definition log_magnitude ::
  "(complex \<Rightarrow> real) \<Rightarrow> complex list list list list \<Rightarrow> real list list list list" where
  "log_magnitude log_abs Z_batch = map (map (map (map log_abs))) Z_batch"

text \<open>Lines 85-87 on an array \<open>x\<close> of shape \<open>x_shape\<close>: the shape and the entries of the
  result.\<close>

definition spectrogram ::
  "stft_coefficient \<Rightarrow> (complex \<Rightarrow> real) \<Rightarrow> nat \<times> nat \<times> nat
     \<Rightarrow> real list list list \<Rightarrow> error + nat list \<times> real list list list list" where
  "spectrogram coef log_abs x_shape x =
     thenE (stft coef NPERSEG NOVERLAP x_shape x) (\<lambda>(shape, Z_batch).
       Inr (shape, log_magnitude log_abs Z_batch))"

text \<open>The staging array of lines 79-83: its shape, and its entries, which a fresh
  \<open>np.memmap\<close> in mode \<open>w+\<close> holds as zeros.\<close>

definition Z_shape :: "nat \<times> nat \<times> nat \<Rightarrow> nat list" where
  "Z_shape x_shape =
     (case x_shape of (N, C, L) \<Rightarrow>
        [N, C, NPERSEG div 2 + 1, L div (NPERSEG - NOVERLAP) + 1])"

definition Z_alloc :: "nat \<times> nat \<times> nat \<Rightarrow> real list list list list" where
  "Z_alloc x_shape =
     (case x_shape of (N, C, L) \<Rightarrow>
        replicate N (replicate C (replicate (NPERSEG div 2 + 1)
          (replicate (L div (NPERSEG - NOVERLAP) + 1) 0))))"

text \<open>numpy's broadcasting rule for an assignment, on the shapes read from their last
  axis: every axis of the source is as long as the target's or has length one, and any
  further axis of the source has length one.\<close>

fun broadcasts_rev :: "nat list \<Rightarrow> nat list \<Rightarrow> bool" where
  "broadcasts_rev [] target = True"
| "broadcasts_rev (s # source) [] = (s = 1 \<and> broadcasts_rev source [])"
| "broadcasts_rev (s # source) (t # target) = ((s = t \<or> s = 1) \<and> broadcasts_rev source target)"

definition broadcasts :: "nat list \<Rightarrow> nat list \<Rightarrow> bool" where
  "broadcasts source target = broadcasts_rev (rev source) (rev target)"

text \<open>
  The assignment \<open>Z[i:i+k] = Z_batch\<close> (line 88). The target is the slice of \<open>Z\<close>, whose
  shape is the shape of \<open>Z\<close> with the length of the slice as first entry. A source of the
  target's shape is copied; a source whose shape does not broadcast raises ValueError. A
  source of another shape that broadcasts would be repeated along its axes of length one;
  the transform never returns one (lemma \<open>stft_shape_broadcasts\<close>), and the model lets
  this case raise as well.
\<close>

definition assign_slice ::
  "nat list \<Rightarrow> real list list list list \<Rightarrow> nat \<Rightarrow> nat
     \<Rightarrow> nat list \<times> real list list list list \<Rightarrow> error + real list list list list" where
  "assign_slice shape_of_Z Z i k batch =
     (case batch of (shape, Z_batch) \<Rightarrow>
        if shape = length (slice Z i k) # tl shape_of_Z
        then Inr (take i Z @ Z_batch @ drop (i + k) Z)
        else Inl ValueError)"

text \<open>The loop of lines 84-89 over the offsets \<open>range(0, len(X), 4096)\<close>.\<close>

fun stage_chunks ::
  "stft_coefficient \<Rightarrow> (complex \<Rightarrow> real) \<Rightarrow> nat \<times> nat
     \<Rightarrow> real list list list \<Rightarrow> real list list list list \<Rightarrow> nat list
     \<Rightarrow> error + real list list list list" where
  "stage_chunks coef log_abs (C, L) X Z [] = Inr Z"
| "stage_chunks coef log_abs (C, L) X Z (i # rest) =
     thenE (spectrogram coef log_abs (length (slice X i 4096), C, L) (slice X i 4096))
       (\<lambda>batch.
     thenE (assign_slice (Z_shape (length X, C, L)) Z i 4096 batch) (\<lambda>Z'.
       stage_chunks coef log_abs (C, L) X Z' rest))"

text \<open>Lines 78-90 for an array \<open>X\<close> of shape \<open>(len(X), C, L)\<close>. For an array without
  windows the loop makes no step and the empty staging array is what is left; a numpy that
  cannot map an empty file raises at line 79 instead, and the statements below that the loop
  runs to its end are made for arrays with a window.\<close>

definition staged_spectrograms ::
  "stft_coefficient \<Rightarrow> (complex \<Rightarrow> real) \<Rightarrow> nat \<times> nat
     \<Rightarrow> real list list list \<Rightarrow> error + real list list list list" where
  "staged_spectrograms coef log_abs CL X =
     (case CL of (C, L) \<Rightarrow>
        stage_chunks coef log_abs (C, L) X (Z_alloc (length X, C, L))
          (py_range (length X) 4096))"

text \<open>An array \<open>X\<close> has the shape \<open>(len(X), C, L)\<close>: every window has \<open>C\<close> channels of \<open>L\<close>
  samples.\<close>

definition has_shape :: "nat \<times> nat \<Rightarrow> real list list list \<Rightarrow> bool" where
  "has_shape CL X =
     (case CL of (C, L) \<Rightarrow>
        list_all (\<lambda>w. length w = C \<and> list_all (\<lambda>s. length s = L) w) X)"

text \<open>The computation the chunked loop is compared with: the transform of lines 85-87
  applied to all of \<open>X\<close> in one call, \<open>np.log(np.abs(scipy.signal.stft(X, ...)[2]) + 1e-16)\<close>,
  with the shape and the entries of the array it returns.\<close>

definition spectrograms_in_one_call ::
  "stft_coefficient \<Rightarrow> (complex \<Rightarrow> real) \<Rightarrow> nat \<times> nat
     \<Rightarrow> real list list list \<Rightarrow> error + nat list \<times> real list list list list" where
  "spectrograms_in_one_call coef log_abs CL X =
     (case CL of (C, L) \<Rightarrow> spectrogram coef log_abs (length X, C, L) X)"

section \<open>Properties\<close>

subsection \<open>Python's range and slices\<close>

lemma thenE_Inr [simp]: "thenE (Inr x) f = f x"
  by (simp add: thenE_def)

lemma thenE_Inl [simp]: "thenE (Inl e) f = Inl e"
  by (simp add: thenE_def)

subsection \<open>The split\<close>

lemma bool_index_by_position:
  assumes "length a = length pid"
  shows "bool_index a (map f pid) =
           Inr (map ((!) a) (filter (\<lambda>i. f (pid ! i)) [0..<length pid]))"
proof -
  have z: "zip a (map f pid) = map (\<lambda>i. (a ! i, f (pid ! i))) [0..<length pid]"
    using assms by (intro nth_equalityI) simp_all
  have "map fst (filter snd (zip a (map f pid))) =
          map ((!) a) (filter (\<lambda>i. f (pid ! i)) [0..<length pid])"
    unfolding z by (simp add: filter_map comp_def)
  then show ?thesis
    using assms by (simp add: bool_index_def)
qed

lemma mask_test_map: "mask_test pid = map (\<lambda>p. p \<in> {2, 3}) pid"
  by (simp add: mask_test_def isin_def pids_test_def)

lemma mask_train_map: "mask_train pid = map (\<lambda>p. p \<notin> {2, 3}) pid"
  by (simp add: mask_train_def mask_test_map)

lemma mset_filter_split:
  "mset (map f (filter (\<lambda>x. \<not> P x) xs)) + mset (map f (filter P xs)) = mset (map f xs)"
  by (induction xs) auto

text \<open>
  Claim C2. The split is decided by the participant id alone: the test side holds the
  labels, participant ids and spectrograms at exactly the positions whose participant is 2
  or 3, the train side those at the other positions, by the same positions for all three
  arrays. No participant id occurs on both sides and every window is on exactly one side.
\<close>

theorem split_grouped_by_participant:
  assumes "length y = length pid" and "length Z = length pid"
  shows "\<exists>s. hold_out Z y pid = Inr s \<and>
    (let te = filter (\<lambda>i. pid ! i \<in> {2, 3}) [0..<length pid];
         tr = filter (\<lambda>i. pid ! i \<notin> {2, 3}) [0..<length pid]
     in y_test s = map ((!) y) te \<and> pid_test s = map ((!) pid) te \<and> Z_test s = map ((!) Z) te \<and>
        y_train s = map ((!) y) tr \<and> pid_train s = map ((!) pid) tr \<and> Z_train s = map ((!) Z) tr \<and>
        set te \<union> set tr = {0..<length pid} \<and> set te \<inter> set tr = {} \<and>
        distinct te \<and> distinct tr) \<and>
    set (pid_test s) \<subseteq> {2, 3} \<and> set (pid_train s) \<inter> {2, 3} = {} \<and>
    set (pid_test s) \<inter> set (pid_train s) = {} \<and>
    mset (Z_train s) + mset (Z_test s) = mset Z"
proof -
  let ?te = "filter (\<lambda>i. pid ! i \<in> {2, 3}) [0..<length pid]"
  let ?tr = "filter (\<lambda>i. pid ! i \<notin> {2, 3}) [0..<length pid]"
  let ?s = "\<lparr>y_train = map ((!) y) ?tr, y_test = map ((!) y) ?te,
             pid_train = map ((!) pid) ?tr, pid_test = map ((!) pid) ?te,
             Z_train = map ((!) Z) ?tr, Z_test = map ((!) Z) ?te\<rparr>"
  have run: "hold_out Z y pid = Inr ?s"
    unfolding hold_out_def ArrayFromMask_def mask_test_map mask_train_map
    by (simp add: bool_index_by_position assms)
  have cover: "set ?te \<union> set ?tr = {0..<length pid}" by auto
  have disj: "set ?te \<inter> set ?tr = {}" by auto
  have pte: "set (map ((!) pid) ?te) \<subseteq> {2, 3}" by auto
  have ptr: "set (map ((!) pid) ?tr) \<inter> {2, 3} = {}" by auto
  have "mset (map ((!) Z) ?tr) + mset (map ((!) Z) ?te) = mset (map ((!) Z) [0..<length pid])"
    using mset_filter_split [of "(!) Z" "\<lambda>i. pid ! i \<in> {2, 3}" "[0..<length pid]"] by simp
  also have "\<dots> = mset Z"
    using assms(2) by (metis map_nth)
  finally have all: "mset (map ((!) Z) ?tr) + mset (map ((!) Z) ?te) = mset Z" .
  have inter: "set (map ((!) pid) ?te) \<inter> set (map ((!) pid) ?tr) = {}"
    using pte ptr by blast
  have sel: "y_test ?s = map ((!) y) ?te" "pid_test ?s = map ((!) pid) ?te"
    "Z_test ?s = map ((!) Z) ?te" "y_train ?s = map ((!) y) ?tr"
    "pid_train ?s = map ((!) pid) ?tr" "Z_train ?s = map ((!) Z) ?tr"
    by simp_all
  show ?thesis
    unfolding Let_def
    by (rule exI [of _ ?s], unfold sel)
      (intro conjI run refl cover disj distinct_filter distinct_upt pte ptr inter all)
qed

text \<open>The split of four windows of the participants 1, 2, 3 and 7.\<close>

theorem split_grouped_by_participant_witness:
  "hold_out [''a'', ''b'', ''c'', ''d''] [0, 1, 4, 2] [1, 2, 3, 7] =
     Inr \<lparr>y_train = [0, 2], y_test = [1, 4], pid_train = [1, 7], pid_test = [2, 3],
          Z_train = [''a'', ''d''], Z_test = [''b'', ''c'']\<rparr>"
  using split_grouped_by_participant [of "[0, 1, 4, 2]" "[1, 2, 3, 7]" "[''a'', ''b'', ''c'', ''d'']"]
  by (simp add: hold_out_def ArrayFromMask_def bool_index_def mask_train_def mask_test_def
      isin_def pids_test_def)

subsection \<open>Offsets and slices\<close>

lemma concat_slices_upto:
  "concat (map (\<lambda>j. slice xs (j * k) k) [0..<m]) = take (m * k) xs"
proof (induction m)
  case 0
  show ?case by simp
next
  case (Suc m)
  have "take (m * k + k) xs = take (m * k) xs @ take k (drop (m * k) xs)"
    by (rule take_add)
  with Suc show ?case
    by (simp add: slice_def add.commute)
qed

lemma range_covers:
  fixes n k :: nat
  assumes "0 < k"
  shows "n \<le> ((n + k - 1) div k) * k"
proof -
  have "(n + k - 1) div k * k + (n + k - 1) mod k = n + k - 1"
    by (rule div_mult_mod_eq)
  moreover have "(n + k - 1) mod k < k"
    using assms by simp
  ultimately show ?thesis by linarith
qed

lemma concat_slices:
  assumes "0 < k"
  shows "concat (map (\<lambda>i. slice xs i k) (py_range (length xs) k)) = xs"
proof -
  have "concat (map (\<lambda>i. slice xs i k) (py_range (length xs) k)) =
          take (((length xs + k - 1) div k) * k) xs"
    by (simp add: py_range_def comp_def concat_slices_upto)
  also have "\<dots> = xs"
    using range_covers [OF assms, of "length xs"] by simp
  finally show ?thesis .
qed

lemma py_range_offsets:
  assumes "0 < k" and "i \<in> set (py_range n k)"
  shows "i < n" and "k dvd i"
proof -
  from assms(2) obtain j where j: "j < (n + k - 1) div k" and i: "i = j * k"
    by (auto simp: py_range_def)
  have "(n + k - 1) div k * k + (n + k - 1) mod k = n + k - 1"
    by (rule div_mult_mod_eq)
  moreover from j have "j * k + k \<le> (n + k - 1) div k * k"
    using mult_le_mono1 [of "Suc j" "(n + k - 1) div k" k] by simp
  ultimately have "j * k + k \<le> n + k - 1" by linarith
  with assms(1) show "i < n" by (simp add: i)
  show "k dvd i" by (simp add: i)
qed

lemma py_range_empty_iff:
  assumes "0 < k"
  shows "py_range n k = [] \<longleftrightarrow> n = 0"
proof -
  have "(n + k - 1) div k = 0 \<longleftrightarrow> n = 0"
    using assms by (auto simp: div_eq_0_iff)
  then show ?thesis by (simp add: py_range_def)
qed


subsection \<open>Batches and the forward pass\<close>

lemma index_batches_pos:
  assumes "0 < k"
  shows "index_batches idxs (int k) =
           Inr (map (\<lambda>i. slice idxs i k) (py_range (length idxs) k))"
  using assms by (simp add: index_batches_def)

lemma concat_index_batches:
  assumes "index_batches idxs bsize = Inr batches" and "0 < bsize"
  shows "concat batches = idxs"
proof -
  from assms(2) have k: "0 < nat bsize" by simp
  from assms have "batches =
      map (\<lambda>i. slice idxs i (nat bsize)) (py_range (length idxs) (nat bsize))"
    by (simp add: index_batches_def)
  then show ?thesis
    using concat_slices [OF k, of idxs] by simp
qed

lemma take_rows_in_range:
  assumes "set idxs \<subseteq> {0..<length a}"
  shows "take_rows a idxs = Inr (map ((!) a) idxs)"
  using assms by (auto simp: take_rows_def list_all_iff)

lemma take_rows_Inr:
  assumes "take_rows a idxs = Inr rows"
  shows "rows = map ((!) a) idxs" and "set idxs \<subseteq> {0..<length a}"
  using assms by (auto simp: take_rows_def list_all_iff split: if_splits)

lemma rows_of_slice:
  "map ((!) Z) (slice [0..<length Z] i k) = slice Z i k"
proof -
  have "map ((!) Z) (take k (drop i [0..<length Z])) =
          take k (drop i (map ((!) Z) [0..<length Z]))"
    by (simp only: take_map drop_map)
  then show ?thesis
    by (simp only: slice_def map_nth)
qed

lemma mapped_rows_of_slice:
  "map (\<lambda>x. f (Z ! x)) (slice [0..<length Z] i k) = map f (slice Z i k)"
  using arg_cong [OF rows_of_slice, of "map f" Z i k] by (simp add: comp_def)

lemma set_slice: "set (slice xs i k) \<subseteq> set xs"
  unfolding slice_def by (meson set_take_subset set_drop_subset subset_trans)

lemma load_batch_unlabelled:
  assumes "set b \<subseteq> {0..<length Z}"
  shows "load_batch Z None b = Inr (map ((!) Z) b, None)"
  using assms by (simp add: load_batch_def take_rows_in_range)

lemma forward_items_unlabelled:
  assumes "\<forall>b \<in> set batches. set b \<subseteq> {0..<length Z}"
  shows "forward_items cnn (map (load_batch Z None) batches) =
           Inr (map (\<lambda>b. map cnn (map ((!) Z) b)) batches)"
  using assms
proof (induction batches)
  case Nil
  show ?case by simp
next
  case (Cons b batches)
  then show ?case by (simp add: load_batch_unlabelled)
qed

lemma forward_by_batches_cases:
  "forward_by_batches cnn Z = (if Z = [] then Inl RuntimeError else Inr (map cnn Z))"
proof -
  let ?bs = "map (\<lambda>i. slice [0..<length Z] i 1024) (py_range (length Z) 1024)"
  have ib: "index_batches [0..<length Z] 1024 = Inr ?bs"
    using index_batches_pos [of 1024 "[0..<length Z]"] by simp
  have inr: "\<forall>b \<in> set ?bs. set b \<subseteq> {0..<length Z}"
    using set_slice [of "[0..<length Z]"] by auto
  have fi: "forward_items cnn (map (load_batch Z (None :: unit list option)) ?bs) =
              Inr (map (\<lambda>i. map cnn (slice Z i 1024)) (py_range (length Z) 1024))"
    unfolding forward_items_unlabelled [OF inr]
    by (simp add: comp_def mapped_rows_of_slice)
  have cc: "concat (map (\<lambda>i. map cnn (slice Z i 1024)) (py_range (length Z) 1024)) = map cnn Z"
  proof -
    have "concat (map (\<lambda>i. map cnn (slice Z i 1024)) (py_range (length Z) 1024)) =
            map cnn (concat (map (\<lambda>i. slice Z i 1024) (py_range (length Z) 1024)))"
      by (simp add: map_concat comp_def)
    then show ?thesis
      using concat_slices [of 1024 Z] by simp
  qed
  have emp: "py_range (length Z) 1024 = [] \<longleftrightarrow> Z = []"
    using py_range_empty_iff [of 1024 "length Z"] by simp
  have "forward_by_batches cnn Z =
          thenE (forward_items cnn (map (load_batch Z (None :: unit list option)) ?bs)) torch_cat"
    by (simp add: forward_by_batches_def create_dataloader_def epoch_idxs_def ib del: map_map)
  also have "\<dots> = torch_cat (map (\<lambda>i. map cnn (slice Z i 1024)) (py_range (length Z) 1024))"
    by (simp only: fi thenE_Inr)
  also have "\<dots> = (if Z = [] then Inl RuntimeError else Inr (map cnn Z))"
    using cc emp by (simp add: torch_cat_def)
  finally show ?thesis .
qed

text \<open>
  Claim C9, as amended. On a dataset that is not empty, forward_by_batches returns the
  outputs of the network on the windows of \<open>Z\<close> in their order: row \<open>k\<close> of the result is
  the output on window \<open>k\<close>.
\<close>

theorem forward_by_batches_in_order:
  assumes "Z \<noteq> []"
  shows "\<exists>Y. forward_by_batches cnn Z = Inr Y \<and> Y = map cnn Z \<and> length Y = length Z \<and>
           (\<forall>k < length Z. Y ! k = cnn (Z ! k))"
  using assms by (simp add: forward_by_batches_cases)

theorem forward_by_batches_in_order_witness:
  "[1, 2, 3 :: nat] \<noteq> [] \<and> forward_by_batches Suc [1, 2, 3] = Inr [2, 3, 4]"
  using forward_by_batches_in_order [of "[1, 2, 3]" Suc] by simp

text \<open>On the empty dataset no batch is produced and \<open>torch.cat\<close> raises: the result is
  not the empty sequence of outputs.\<close>

theorem forward_by_batches_empty_counterexample:
  "forward_by_batches Suc [] \<noteq> Inr (map Suc [])"
  by (simp add: forward_by_batches_cases)

text \<open>
  Claim C10. Every pair that create_dataloader yields when labels are given is read from
  \<open>Z\<close> and from \<open>y\<close> with one and the same index batch, so the label at position \<open>j\<close> of the
  batch is the label of the window at position \<open>j\<close>.
\<close>

theorem dataloader_keeps_labels_aligned:
  assumes "create_dataloader draw Z (Some y) bsize shuffle = Inr items"
    and "Inr (Z_batch, yb) \<in> set items"
  shows "\<exists>batches idxs_batch y_batch.
           index_batches (epoch_idxs draw (length Z) shuffle) bsize = Inr batches \<and>
           idxs_batch \<in> set batches \<and> yb = Some y_batch \<and>
           Z_batch = map ((!) Z) idxs_batch \<and> y_batch = map ((!) y) idxs_batch \<and>
           length y_batch = length Z_batch \<and>
           (\<forall>j < length Z_batch. idxs_batch ! j < length Z \<and> idxs_batch ! j < length y \<and>
              Z_batch ! j = Z ! (idxs_batch ! j) \<and> y_batch ! j = y ! (idxs_batch ! j))"
proof -
  from assms(1) obtain batches where
    ib: "index_batches (epoch_idxs draw (length Z) shuffle) bsize = Inr batches" and
    items: "items = map (load_batch Z (Some y)) batches"
    by (auto simp: create_dataloader_def thenE_def split: sum.splits)
  from assms(2) items obtain b where
    b: "b \<in> set batches" and lb: "load_batch Z (Some y) b = Inr (Z_batch, yb)"
    by auto
  from lb obtain y_batch where
    tz: "take_rows Z b = Inr Z_batch" and ty: "take_rows y b = Inr y_batch" and
    yb: "yb = Some y_batch"
    by (auto simp: load_batch_def thenE_def split: sum.splits)
  note z = take_rows_Inr [OF tz] and l = take_rows_Inr [OF ty]
  have "\<forall>j < length Z_batch. b ! j < length Z \<and> b ! j < length y \<and>
          Z_batch ! j = Z ! (b ! j) \<and> y_batch ! j = y ! (b ! j)"
    using z l by (auto simp: subset_iff)
  with ib b yb z(1) l(1) show ?thesis
    by (intro exI [of _ batches] exI [of _ b] exI [of _ y_batch]) simp
qed

lemma dataloader_example:
  "create_dataloader rev [''a'', ''b'', ''c''] (Some [10, 11, 12 :: nat]) 2 True =
     Inr [Inr ([''c'', ''b''], Some [12, 11]), Inr ([''a''], Some [10])]"
  by code_simp

text \<open>Three windows in the drawn order 2, 1, 0 and batches of two: the first pair holds
  the windows 2 and 1 with their labels.\<close>

theorem dataloader_keeps_labels_aligned_witness:
  "\<exists>batches idxs_batch y_batch.
     index_batches (epoch_idxs rev (length [''a'', ''b'', ''c'']) True) 2 = Inr batches \<and>
     idxs_batch \<in> set batches \<and> Some [12, 11 :: nat] = Some y_batch \<and>
     [''c'', ''b''] = map ((!) [''a'', ''b'', ''c'']) idxs_batch \<and>
     y_batch = map ((!) [10, 11, 12]) idxs_batch \<and>
     length y_batch = length [''c'', ''b''] \<and>
     (\<forall>j < length [''c'', ''b''].
        idxs_batch ! j < length [''a'', ''b'', ''c''] \<and>
        idxs_batch ! j < length [10, 11, 12 :: nat] \<and>
        [''c'', ''b''] ! j = [''a'', ''b'', ''c''] ! (idxs_batch ! j) \<and>
        y_batch ! j = [10, 11, 12] ! (idxs_batch ! j))"
proof -
  have "Inr ([''c'', ''b''], Some [12, 11 :: nat]) \<in>
          set [Inr ([''c'', ''b''], Some [12, 11]), Inr ([''a''], Some [10])]"
    by simp
  from dataloader_keeps_labels_aligned [OF dataloader_example this]
  show ?thesis .
qed


subsection \<open>What the HMM routines receive\<close>

lemma smoothed_predictions_cases:
  "smoothed_predictions env m hmm Z =
     (if Z = [] then Inl RuntimeError
      else Inr (utils_viterbi env
                  (Labels (map (\<lambda>z. argmax (softmax env (scores env m z))) Z)) hmm))"
  by (simp add: smoothed_predictions_def forward_by_batches_cases viterbi_input_def comp_def)

lemma train_hmm_cases:
  "train_hmm env m Z y =
     (if Z = [] then Inl RuntimeError
      else Inr (utils_train_hmm env (Probs (map (\<lambda>z. softmax env (scores env m z)) Z)) y))"
  by (simp add: train_hmm_def forward_by_batches_cases comp_def)

lemma evaluate_model_cases:
  "evaluate_model env m hmm Z y pid =
     (if Z = [] then Inl RuntimeError
      else Inr (cohen_kappa_score env y
                  (utils_viterbi env
                     (Labels (map (\<lambda>z. argmax (softmax env (scores env m z))) Z)) hmm) pid,
                accuracy_score env y
                  (utils_viterbi env
                     (Labels (map (\<lambda>z. argmax (softmax env (scores env m z))) Z)) hmm) pid))"
  by (simp add: evaluate_model_def smoothed_predictions_cases)

text \<open>
  Claim C1, as amended. The array that evaluate_model hands to the Viterbi decoder is the
  vector of class labels, the argmax of each row of softmax outputs, and the kappa and
  the accuracy are computed from the decoder's output on these labels. The softmax
  probabilities themselves go to the HMM fitting of train_hmm.
\<close>

theorem viterbi_decodes_class_labels:
  "smoothed_predictions env m hmm Z =
     (if Z = [] then Inl RuntimeError
      else Inr (utils_viterbi env
                  (Labels (map (\<lambda>z. argmax (softmax env (scores env m z))) Z)) hmm)) \<and>
   evaluate_model env m hmm Z y pid =
     (if Z = [] then Inl RuntimeError
      else Inr (cohen_kappa_score env y
                  (utils_viterbi env
                     (Labels (map (\<lambda>z. argmax (softmax env (scores env m z))) Z)) hmm) pid,
                accuracy_score env y
                  (utils_viterbi env
                     (Labels (map (\<lambda>z. argmax (softmax env (scores env m z))) Z)) hmm) pid)) \<and>
   train_hmm env m Z y =
     (if Z = [] then Inl RuntimeError
      else Inr (utils_train_hmm env (Probs (map (\<lambda>z. softmax env (scores env m z)) Z)) y))"
  using smoothed_predictions_cases [of env m hmm Z] evaluate_model_cases [of env m hmm Z y pid]
    train_hmm_cases [of env m Z y]
  by simp

text \<open>Two rows of probabilities that differ and have the same greatest entry: the decoder
  receives the same input for both, the label 0, and it is not the matrix of
  probabilities.\<close>

theorem viterbi_input_counterexample:
  "viterbi_input [[3 / 4, 1 / 4]] \<noteq> Probs [[3 / 4, 1 / 4]] \<and>
   [[3 / 4, 1 / 4 :: real]] \<noteq> [[5 / 8, 3 / 8]] \<and>
   viterbi_input [[3 / 4, 1 / 4]] = Labels [0] \<and>
   viterbi_input [[5 / 8, 3 / 8]] = Labels [0]"
  by (simp add: viterbi_input_def argmax_def)

subsection \<open>Shapes through the network\<close>

lemma pyramid:
  assumes "train_mode \<longrightarrow> N \<noteq> 1"
  shows "sequential train_mode (take 3 (CNN k 3 8)) (N, 3, 129, 126) = Inr (N, 8, 64, 63)"
    and "sequential train_mode (take 6 (CNN k 3 8)) (N, 3, 129, 126) = Inr (N, 16, 32, 32)"
    and "sequential train_mode (take 9 (CNN k 3 8)) (N, 3, 129, 126) = Inr (N, 32, 16, 16)"
    and "sequential train_mode (take 12 (CNN k 3 8)) (N, 3, 129, 126) = Inr (N, 64, 8, 8)"
    and "sequential train_mode (take 15 (CNN k 3 8)) (N, 3, 129, 126) = Inr (N, 128, 4, 4)"
    and "sequential train_mode (take 18 (CNN k 3 8)) (N, 3, 129, 126) = Inr (N, 256, 1, 1)"
    and "sequential train_mode (CNN k 3 8) (N, 3, 129, 126) = Inr (N, k, 1, 1)"
  using assms by (simp_all add: CNN_def)

lemma single_instance_in_training:
  "sequential True (CNN k 3 8) (1, 3, 129, 126) = Inl ValueError"
  by (simp add: CNN_def)

lemma blocks:
  assumes "j < 6"
  shows "\<exists>c_in c_out kernel stride padding.
           CNN k c n ! (3 * j) = Conv2d c_in c_out kernel stride padding False \<and>
           CNN k c n ! (3 * j + 1) = BatchNorm2d c_out \<and>
           CNN k c n ! (3 * j + 2) = ReLU True"
proof -
  from assms consider "j = 0" | "j = 1" | "j = 2" | "j = 3" | "j = 4" | "j = 5"
    by linarith
  then show ?thesis
    by cases (simp_all add: CNN_def)
qed

text \<open>
  Claim C6, as amended. The network is six blocks of a convolution without bias, a batch
  normalisation and a ReLU, followed by a convolution with a 1x1 kernel. On a batch of
  \<open>N\<close> spectrograms of shape (3, 129, 126), with \<open>N\<close> at least one and, in training mode, at
  least two, the blocks return the shapes 64x63, 32x32, 16x16, 8x8, 4x4 and 1x1 with 8 to
  256 channels, and forward returns an array of shape \<open>(N, output_size)\<close>, which is
  \<open>(N, 5)\<close> for the five classes.
\<close>

theorem CNN_forward_shape:
  assumes "0 < N" and "train_mode \<longrightarrow> 2 \<le> N"
  shows "forward train_mode (CNN output_size 3 8) (N, 3, 129, 126) = Inr (N, output_size) \<and>
         forward train_mode (CNN 5 3 8) (N, 3, 129, 126) = Inr (N, 5) \<and>
         length (CNN output_size 3 8) = 19 \<and>
         (\<forall>j < 6. \<exists>c_in c_out kernel stride padding.
            CNN output_size 3 8 ! (3 * j) = Conv2d c_in c_out kernel stride padding False \<and>
            CNN output_size 3 8 ! (3 * j + 1) = BatchNorm2d c_out \<and>
            CNN output_size 3 8 ! (3 * j + 2) = ReLU True) \<and>
         CNN output_size 3 8 ! 18 = Conv2d 256 output_size (1, 1) 1 0 True \<and>
         map (\<lambda>j. sequential train_mode (take (3 * j) (CNN output_size 3 8)) (N, 3, 129, 126))
           [1, 2, 3, 4, 5, 6] =
           [Inr (N, 8, 64, 63), Inr (N, 16, 32, 32), Inr (N, 32, 16, 16), Inr (N, 64, 8, 8),
            Inr (N, 128, 4, 4), Inr (N, 256, 1, 1)]"
proof -
  from assms have mode: "train_mode \<longrightarrow> N \<noteq> 1" by auto
  note p = pyramid [OF mode]
  have fw: "forward train_mode (CNN k 3 8) (N, 3, 129, 126) = Inr (N, k)" for k
    using assms(1) by (simp add: forward_def p(7))
  have top: "length (CNN output_size 3 8) = 19"
    "CNN output_size 3 8 ! 18 = Conv2d 256 output_size (1, 1) 1 0 True"
    by (simp_all add: CNN_def)
  have bl: "\<forall>j < 6. \<exists>c_in c_out kernel stride padding.
            CNN output_size 3 8 ! (3 * j) = Conv2d c_in c_out kernel stride padding False \<and>
            CNN output_size 3 8 ! (3 * j + 1) = BatchNorm2d c_out \<and>
            CNN output_size 3 8 ! (3 * j + 2) = ReLU True"
    using blocks by blast
  have py: "map (\<lambda>j. sequential train_mode (take (3 * j) (CNN output_size 3 8)) (N, 3, 129, 126))
           [1, 2, 3, 4, 5, 6] =
           [Inr (N, 8, 64, 63), Inr (N, 16, 32, 32), Inr (N, 32, 16, 16), Inr (N, 64, 8, 8),
            Inr (N, 128, 4, 4), Inr (N, 256, 1, 1)]"
    by (simp add: p)
  from fw [of output_size] fw [of 5] top bl py show ?thesis
    by (intro conjI)
qed

text \<open>A full mini-batch of 32 spectrograms in training mode.\<close>

theorem CNN_forward_shape_witness:
  "(0::nat) < 32 \<and> forward True (CNN 5 3 8) (32, 3, 129, 126) = Inr (32, 5)"
  using CNN_forward_shape [of 32 True 5] by simp

text \<open>A batch of one spectrogram in training mode: the sixth batch normalisation receives
  one value per channel and raises.\<close>

theorem CNN_forward_single_instance_counterexample:
  "forward True (CNN 5 3 8) (1, 3, 129, 126) = Inl ValueError \<and>
   forward True (CNN 5 3 8) (1, 3, 129, 126) \<noteq> Inr (1, 5)"
  unfolding forward_def single_instance_in_training by simp


subsection \<open>The training loop\<close>


























subsection \<open>Shapes of the transform and of the staging array\<close>

lemma stft_segments_unfold:
  "stft_segments 256 232 L = (L + 256 + ((24 - L mod 24) mod 24) mod 256 - 232) div 24"
proof -
  have nstep: "(256::nat) - 232 = 24" by simp
  have ext: "L + 2 * (256 div 2) = L + 256" by simp
  have e2: "L + 256 - 256 = L" by simp
  show ?thesis
    by (simp only: stft_segments_def Let_def nstep ext e2)
qed

lemma stft_segments_256:
  "stft_segments 256 232 L = L div 24 + 1 + (if 24 dvd L then 0 else 1)"
proof -
  define q where "q = L div 24"
  define rr where "rr = L mod 24"
  have eq: "L = 24 * q + rr"
    by (simp add: q_def rr_def)
  have lt: "rr < 24"
    by (simp add: rr_def)
  have dv: "24 dvd L \<longleftrightarrow> rr = 0"
    unfolding rr_def by (rule dvd_eq_mod_eq_0)
  have A: "stft_segments 256 232 L = (L + 256 + ((24 - rr) mod 24) mod 256 - 232) div 24"
    unfolding rr_def by (rule stft_segments_unfold)
  show ?thesis
  proof (cases "rr = 0")
    case True
    have "(L + 256 + ((24 - rr) mod 24) mod 256 - 232) div 24 = (24 * (q + 1)) div 24"
      using eq True by simp
    also have "\<dots> = q + 1"
      by (rule nonzero_mult_div_cancel_left) simp
    finally show ?thesis
      using True by (simp add: A dv q_def)
  next
    case False
    with lt have "((24 - rr) mod 24) mod 256 = 24 - rr"
      by simp
    then have "(L + 256 + ((24 - rr) mod 24) mod 256 - 232) div 24 = (24 * (q + 2)) div 24"
      using eq lt by simp
    also have "\<dots> = q + 2"
      by (rule nonzero_mult_div_cancel_left) simp
    finally show ?thesis
      using False by (simp add: A dv q_def)
  qed
qed

lemma stft_shape_long:
  assumes "0 < n" and "0 < C" and "256 \<le> L"
  shows "stft_shape NPERSEG NOVERLAP (n, C, L) =
           Inr [n, C, 129, L div 24 + 1 + (if 24 dvd L then 0 else 1)]"
proof -
  from assms have nz: "n * C * L \<noteq> 0" by simp
  from assms(3) have m: "min 256 L = 256" by simp
  show ?thesis
    unfolding stft_shape_def NPERSEG_def NOVERLAP_def prod.case m
    using nz by (simp add: stft_segments_256)
qed

lemma stft_shape_short:
  assumes "L < 256"
  shows "stft_shape NPERSEG NOVERLAP (n, C, L) \<noteq> Inr [n, C, 129, T]"
proof -
  from assms have m: "min 256 L = L" by simp
  from assms have f: "L div 2 + 1 \<noteq> 129" by linarith
  show ?thesis
    unfolding stft_shape_def NPERSEG_def NOVERLAP_def prod.case m
    using f by simp
qed

lemma stft_shape_empty:
  assumes "C = 0 \<or> L = 0"
  shows "stft_shape NPERSEG NOVERLAP (n, C, L) \<noteq> Inr [n, C, F, T]"
  using assms by (auto simp: stft_shape_def)

lemma Z_shape_tail: "n # tl (Z_shape (N, C, L)) = [n, C, 129, L div 24 + 1]"
  by (simp add: Z_shape_def NPERSEG_def NOVERLAP_def)

lemma stft_shape_chunk:
  assumes "0 < n"
  shows "stft_shape NPERSEG NOVERLAP (n, C, L) = Inr (n # tl (Z_shape (N, C, L))) \<longleftrightarrow>
           0 < C \<and> NPERSEG \<le> L \<and> (NPERSEG - NOVERLAP) dvd L"
proof -
  have c: "(0 < C \<and> NPERSEG \<le> L \<and> (NPERSEG - NOVERLAP) dvd L) \<longleftrightarrow>
           (0 < C \<and> 256 \<le> L \<and> 24 dvd L)"
    by (simp add: NPERSEG_def NOVERLAP_def)
  consider "C = 0 \<or> L = 0" | "0 < C" "0 < L" "L < 256" | "0 < C" "256 \<le> L"
    by linarith
  then show ?thesis
  proof cases
    case 1
    with stft_shape_empty [OF 1] show ?thesis
      unfolding Z_shape_tail c by auto
  next
    case 2
    with stft_shape_short [OF 2(3)] show ?thesis
      unfolding Z_shape_tail c by auto
  next
    case 3
    show ?thesis
      unfolding Z_shape_tail c stft_shape_long [OF assms 3]
      using 3 by simp
  qed
qed

subsection \<open>The staging loop\<close>

lemma stft_result:
  "stft coef nperseg noverlap x_shape x = Inl e \<longleftrightarrow> stft_shape nperseg noverlap x_shape = Inl e"
  "stft coef nperseg noverlap x_shape x = Inr (shape, d) \<Longrightarrow>
     stft_shape nperseg noverlap x_shape = Inr shape"
  by (auto simp: stft_def thenE_def split: sum.splits list.splits)

lemma stft_shape_error:
  "stft_shape nperseg noverlap x_shape = Inl e \<Longrightarrow> e = ValueError"
  by (auto simp: stft_shape_def split: prod.splits if_splits)

lemma spectrogram_result:
  "spectrogram coef log_abs x_shape x = Inl e \<Longrightarrow> e = ValueError"
  "spectrogram coef log_abs x_shape x = Inr (shape, d) \<Longrightarrow>
     stft_shape NPERSEG NOVERLAP x_shape = Inr shape"
proof -
  assume "spectrogram coef log_abs x_shape x = Inl e"
  then have "stft coef NPERSEG NOVERLAP x_shape x = Inl e"
    by (auto simp: spectrogram_def thenE_def split: sum.splits)
  then show "e = ValueError"
    by (simp add: stft_result(1) stft_shape_error)
next
  assume "spectrogram coef log_abs x_shape x = Inr (shape, d)"
  then obtain d' where "stft coef NPERSEG NOVERLAP x_shape x = Inr (shape, d')"
    by (auto simp: spectrogram_def thenE_def split: sum.splits)
  then show "stft_shape NPERSEG NOVERLAP x_shape = Inr shape"
    by (rule stft_result(2))
qed

lemma spectrogram_fits:
  assumes "0 < n" and "0 < C" and "256 \<le> L" and "24 dvd L"
  shows "spectrogram coef log_abs (n, C, L) x =
           Inr ([n, C, 129, L div 24 + 1],
                map (map (\<lambda>s. map (\<lambda>f. map (\<lambda>t. log_abs (coef NPERSEG NOVERLAP s f t))
                  [0..<L div 24 + 1]) [0..<129])) x)"
proof -
  have sh: "stft_shape NPERSEG NOVERLAP (n, C, L) = Inr [n, C, 129, L div 24 + 1]"
    using stft_shape_long [OF assms(1-3)] assms(4) by simp
  show ?thesis
    unfolding spectrogram_def stft_def sh thenE_Inr
    by (simp add: log_magnitude_def comp_def)
qed

lemma chunk_assignment_fails:
  assumes "0 < n" and "\<not> (0 < C \<and> 256 \<le> L \<and> 24 dvd L)" and "length (slice Z i k) = n"
  shows "thenE (spectrogram coef log_abs (n, C, L) x) (assign_slice (Z_shape (N, C, L)) Z i k) =
           Inl ValueError"
proof (cases "spectrogram coef log_abs (n, C, L) x")
  case (Inl e)
  with spectrogram_result(1) [OF Inl] show ?thesis by simp
next
  case (Inr batch)
  obtain shape d where b: "batch = (shape, d)" by (cases batch)
  from spectrogram_result(2) [OF Inr [unfolded b]]
  have "stft_shape NPERSEG NOVERLAP (n, C, L) = Inr shape" .
  moreover have "stft_shape NPERSEG NOVERLAP (n, C, L) \<noteq> Inr (n # tl (Z_shape (N, C, L)))"
    using stft_shape_chunk [OF assms(1), of C L N] assms(2)
    by (simp add: NPERSEG_def NOVERLAP_def)
  ultimately have "shape \<noteq> n # tl (Z_shape (N, C, L))" by auto
  then show ?thesis
    by (simp add: Inr b assign_slice_def assms(3))
qed

lemma stage_chunks_from:
  fixes coef :: stft_coefficient and log_abs :: "complex \<Rightarrow> real"
  defines "T \<equiv> \<lambda>L. map (\<lambda>s. map (\<lambda>f. map (\<lambda>t. log_abs (coef NPERSEG NOVERLAP s f t))
                     [0..<L div 24 + 1]) [0..<129])"
  assumes ok: "0 < C" "256 \<le> L" "24 dvd L"
    and len: "length Z0 = length X"
    and b: "b = (length X + 4095) div 4096"
  shows "a \<le> b \<Longrightarrow>
         stage_chunks coef log_abs (C, L) X (map (T L) (take (a * 4096) X) @ drop (a * 4096) Z0)
           (map (\<lambda>j. j * 4096) [a..<b]) = Inr (map (T L) X)"
proof (induction "b - a" arbitrary: a)
  case 0
  then have "a = b" by simp
  moreover have "length X \<le> b * 4096"
    unfolding b using range_covers [of 4096 "length X"] by simp
  ultimately show ?case
    by (simp add: len)
next
  case (Suc d)
  then have ab: "a < b" and d: "d = b - Suc a" and sab: "Suc a \<le> b" by simp_all
  let ?i = "a * 4096"
  let ?Z = "map (T L) (take ?i X) @ drop ?i Z0"
  have "?i \<in> set (py_range (length X) 4096)"
    using ab by (simp add: py_range_def b)
  from py_range_offsets(1) [OF _ this] have i: "?i < length X" by simp
  then have li: "length (map (T L) (take ?i X)) = ?i" by simp
  have n: "0 < length (slice X ?i 4096)"
    using i by (simp add: slice_def)
  have tgt: "slice ?Z ?i 4096 = slice Z0 ?i 4096"
    unfolding slice_def using li by simp
  have tl: "length (slice ?Z ?i 4096) = length (slice X ?i 4096)"
    unfolding tgt by (simp add: slice_def len)
  have sp: "spectrogram coef log_abs (length (slice X ?i 4096), C, L) (slice X ?i 4096) =
              Inr ([length (slice X ?i 4096), C, 129, L div 24 + 1],
                   map (T L) (slice X ?i 4096))"
    unfolding T_def by (rule spectrogram_fits [OF n ok])
  have asg: "assign_slice (Z_shape (length X, C, L)) ?Z ?i 4096
               ([length (slice X ?i 4096), C, 129, L div 24 + 1], map (T L) (slice X ?i 4096)) =
             Inr (take ?i ?Z @ map (T L) (slice X ?i 4096) @ drop (?i + 4096) ?Z)"
    unfolding assign_slice_def prod.case tl Z_shape_tail by simp
  have t1: "take ?i ?Z = map (T L) (take ?i X)"
    using li by simp
  have t2: "drop (?i + 4096) ?Z = drop (Suc a * 4096) Z0"
    using li by (simp add: add.commute)
  have nxt: "take ?i ?Z @ map (T L) (slice X ?i 4096) @ drop (?i + 4096) ?Z =
               map (T L) (take (Suc a * 4096) X) @ drop (Suc a * 4096) Z0"
  proof -
    have "take (Suc a * 4096) X = take ?i X @ take 4096 (drop ?i X)"
      using take_add [of ?i 4096 X] by (simp add: add.commute)
    then show ?thesis
      unfolding t1 t2 by (simp add: slice_def)
  qed
  have "[a..<b] = a # [Suc a..<b]"
    using ab by (rule upt_conv_Cons)
  then have "map (\<lambda>j. j * 4096) [a..<b] = ?i # map (\<lambda>j. j * 4096) [Suc a..<b]"
    by (simp only: list.map)
  then have "stage_chunks coef log_abs (C, L) X ?Z (map (\<lambda>j. j * 4096) [a..<b]) =
          stage_chunks coef log_abs (C, L) X
            (map (T L) (take (Suc a * 4096) X) @ drop (Suc a * 4096) Z0)
            (map (\<lambda>j. j * 4096) [Suc a..<b])"
    by (simp only: stage_chunks.simps sp thenE_Inr asg nxt)
  also have "\<dots> = Inr (map (T L) X)"
    using Suc.hyps(1) [OF d sab] .
  finally show ?case .
qed

lemma thenE_assoc: "thenE (thenE r f) g = thenE r (\<lambda>x. thenE (f x) g)"
  by (cases r) simp_all

lemma spectrogram_shape:
  "map_sum id fst (spectrogram coef log_abs x_shape x) = stft_shape NPERSEG NOVERLAP x_shape"
  by (auto simp: spectrogram_def stft_def thenE_def split: sum.splits list.splits)

lemma length_Z_alloc: "length (Z_alloc (N, C, L)) = N"
  by (simp add: Z_alloc_def)

lemma staged_spectrograms_cases:
  "staged_spectrograms coef log_abs (C, L) X =
     (if X = [] then Inr []
      else if 0 < C \<and> 256 \<le> L \<and> 24 dvd L
      then Inr (map (map (\<lambda>s. map (\<lambda>f. map (\<lambda>t. log_abs (coef NPERSEG NOVERLAP s f t))
                  [0..<L div 24 + 1]) [0..<129])) X)
      else Inl ValueError)"
proof (cases "X = []")
  case True
  then show ?thesis
    by (simp add: staged_spectrograms_def py_range_def Z_alloc_def)
next
  case False
  let ?Z0 = "Z_alloc (length X, C, L)"
  let ?b = "(length X + 4095) div 4096"
  have "length X + 4096 - 1 = length X + 4095"
    by simp
  then have pr: "py_range (length X) 4096 = map (\<lambda>j. j * 4096) [0..<?b]"
    by (simp only: py_range_def)
  show ?thesis
  proof (cases "0 < C \<and> 256 \<le> L \<and> 24 dvd L")
    case True
    then have ok: "0 < C" "256 \<le> L" "24 dvd L" by simp_all
    have "stage_chunks coef log_abs (C, L) X
            (map (map (\<lambda>s. map (\<lambda>f. map (\<lambda>t. log_abs (coef NPERSEG NOVERLAP s f t))
                  [0..<L div 24 + 1]) [0..<129])) (take (0 * 4096) X) @ drop (0 * 4096) ?Z0)
            (map (\<lambda>j. j * 4096) [0..<?b]) =
          Inr (map (map (\<lambda>s. map (\<lambda>f. map (\<lambda>t. log_abs (coef NPERSEG NOVERLAP s f t))
                  [0..<L div 24 + 1]) [0..<129])) X)"
      by (rule stage_chunks_from [OF ok length_Z_alloc refl]) simp
    then show ?thesis
      using False True by (simp add: staged_spectrograms_def pr del: upt_Suc)
  next
    case bad: False
    from \<open>X \<noteq> []\<close> have b: "0 < ?b"
      by (cases X) simp_all
    then have "[0..<?b] = 0 # [Suc 0..<?b]"
      by (rule upt_conv_Cons)
    then have pr0: "py_range (length X) 4096 = 0 # map (\<lambda>j. j * 4096) [Suc 0..<?b]"
      unfolding pr by (simp only: list.map mult_zero_left)
    have n: "0 < length (slice X 0 4096)"
      using \<open>X \<noteq> []\<close> by (simp add: slice_def)
    have tl: "length (slice ?Z0 0 4096) = length (slice X 0 4096)"
      by (simp add: slice_def length_Z_alloc)
    have "stage_chunks coef log_abs (C, L) X ?Z0 (py_range (length X) 4096) =
            thenE (thenE (spectrogram coef log_abs (length (slice X 0 4096), C, L) (slice X 0 4096))
                     (assign_slice (Z_shape (length X, C, L)) ?Z0 0 4096))
              (\<lambda>Z'. stage_chunks coef log_abs (C, L) X Z' (map (\<lambda>j. j * 4096) [Suc 0..<?b]))"
      unfolding pr0 by (simp only: stage_chunks.simps thenE_assoc)
    also have "\<dots> = Inl ValueError"
      unfolding chunk_assignment_fails [OF n bad tl] by simp
    finally show ?thesis
      using False bad by (simp add: staged_spectrograms_def)
  qed
qed

lemma stft_shape_broadcasts:
  assumes "0 < n" and "stft_shape NPERSEG NOVERLAP (n, C, L) = Inr shape"
    and "broadcasts shape (n # tl (Z_shape (N, C, L)))"
  shows "shape = n # tl (Z_shape (N, C, L))"
proof -
  consider "C = 0 \<or> L = 0" | "0 < C" "0 < L" "L < 256" | "0 < C" "256 \<le> L"
    by linarith
  then show ?thesis
  proof cases
    case 1
    then have "shape = [n, C, L]"
      using assms(2) by (auto simp: stft_shape_def)
    with assms(3) 1 show ?thesis
      unfolding Z_shape_tail by (auto simp: broadcasts_def)
  next
    case 2
    then have m: "min 256 L = L" by simp
    from assms(1) 2 have nz: "n * C * L \<noteq> 0" by simp
    from assms(2) nz obtain T where "shape = [n, C, L div 2 + 1, T]"
      unfolding stft_shape_def NPERSEG_def NOVERLAP_def prod.case m
      by (auto split: if_splits)
    with assms(3) have "L div 2 + 1 = 129 \<or> L div 2 + 1 = 1"
      unfolding Z_shape_tail by (simp add: broadcasts_def)
    moreover from assms(2) nz have "232 < L"
      unfolding stft_shape_def NPERSEG_def NOVERLAP_def prod.case m
      by (auto split: if_splits)
    ultimately show ?thesis
      using 2(3) by linarith
  next
    case 3
    have sh: "shape = [n, C, 129, L div 24 + 1 + (if 24 dvd L then 0 else 1)]"
      using assms(2) unfolding stft_shape_long [OF assms(1) 3] by simp
    show ?thesis
    proof (cases "24 dvd L")
      case True
      then show ?thesis
        unfolding Z_shape_tail sh by simp
    next
      case False
      with assms(3) show ?thesis
        unfolding Z_shape_tail sh by (simp add: broadcasts_def)
    qed
  qed
qed



subsection \<open>What the staging array holds\<close>

lemma staging_completes:
  assumes "0 < C" and "NPERSEG \<le> L" and "(NPERSEG - NOVERLAP) dvd L"
  shows "staged_spectrograms coef log_abs (C, L) X =
           Inr (map (map (\<lambda>s. map (\<lambda>f. map (\<lambda>t. log_abs (coef NPERSEG NOVERLAP s f t))
                  [0..<L div 24 + 1]) [0..<129])) X)"
  using assms unfolding staged_spectrograms_cases
  by (simp add: NPERSEG_def NOVERLAP_def)

lemma staging_raises:
  assumes "X \<noteq> []" and "\<not> (0 < C \<and> NPERSEG \<le> L \<and> (NPERSEG - NOVERLAP) dvd L)"
  shows "staged_spectrograms coef log_abs (C, L) X = Inl ValueError"
  using assms unfolding staged_spectrograms_cases
  by (simp add: NPERSEG_def NOVERLAP_def)

lemma one_call_fits:
  assumes "X \<noteq> []" and "0 < C" and "NPERSEG \<le> L" and "(NPERSEG - NOVERLAP) dvd L"
  shows "spectrograms_in_one_call coef log_abs (C, L) X =
           Inr (Z_shape (length X, C, L),
                map (map (\<lambda>s. map (\<lambda>f. map (\<lambda>t. log_abs (coef NPERSEG NOVERLAP s f t))
                  [0..<L div 24 + 1]) [0..<129])) X)"
proof -
  from assms(1) have n: "0 < length X" by simp
  from assms(3,4) have L: "256 \<le> L" "24 dvd L"
    by (simp_all add: NPERSEG_def NOVERLAP_def)
  have z: "Z_shape (length X, C, L) = [length X, C, 129, L div 24 + 1]"
    by (simp add: Z_shape_def NPERSEG_def NOVERLAP_def)
  show ?thesis
    unfolding spectrograms_in_one_call_def prod.case z
    by (rule spectrogram_fits [OF n assms(2) L])
qed

lemma one_call_shape:
  "map_sum id fst (spectrograms_in_one_call coef log_abs (C, L) X) =
     stft_shape NPERSEG NOVERLAP (length X, C, L)"
  unfolding spectrograms_in_one_call_def prod.case by (rule spectrogram_shape)




text \<open>
  Claim C4. For a non-empty array \<open>X\<close> of shape \<open>(len(X), C, L)\<close> with at least one channel
  and a window length that is at least \<open>NPERSEG\<close> and a multiple of \<open>NPERSEG - NOVERLAP\<close>,
  the loop over chunks of 4096 windows runs to its end, and the array it leaves is the
  array that the transform returns on all of \<open>X\<close> in one call: the same shape and the same
  entries.
\<close>

theorem chunked_staging_equals_whole:
  assumes "X \<noteq> []" and "has_shape (C, L) X"
    and "0 < C" and "NPERSEG \<le> L" and "(NPERSEG - NOVERLAP) dvd L"
  shows "\<exists>Z. staged_spectrograms coef log_abs (C, L) X = Inr Z \<and>
             spectrograms_in_one_call coef log_abs (C, L) X =
               Inr (Z_shape (length X, C, L), Z)"
  using staging_completes [OF assms(3-5), of coef log_abs X]
    one_call_fits [OF assms(1,3-5), of coef log_abs]
  by simp

theorem chunked_staging_equals_whole_witness:
  "replicate 4097 [replicate 264 (1::real)] \<noteq> [] \<and>
   has_shape (1, 264) (replicate 4097 [replicate 264 1]) \<and>
   NPERSEG \<le> 264 \<and> (NPERSEG - NOVERLAP) dvd (264::nat) \<and>
   (\<exists>Z. staged_spectrograms (\<lambda>nperseg noverlap s f t. Complex (sum_list s + real f) (real t)) Re
           (1, 264) (replicate 4097 [replicate 264 1]) = Inr Z \<and>
        spectrograms_in_one_call
           (\<lambda>nperseg noverlap s f t. Complex (sum_list s + real f) (real t)) Re
           (1, 264) (replicate 4097 [replicate 264 1]) = Inr ([4097, 1, 129, 12], Z))"
proof -
  let ?X = "replicate 4097 [replicate 264 (1::real)]"
  have ne: "?X \<noteq> []"
    by simp
  have hs: "has_shape (1, 264) ?X"
    by (simp add: has_shape_def list_all_iff)
  have c: "0 < (1::nat)" "NPERSEG \<le> 264" "(NPERSEG - NOVERLAP) dvd (264::nat)"
    by (simp_all add: NPERSEG_def NOVERLAP_def)
  have z: "Z_shape (length ?X, 1, 264) = [4097, 1, 129, 12]"
    by (simp add: Z_shape_def NPERSEG_def NOVERLAP_def)
  show ?thesis
    using chunked_staging_equals_whole [OF ne hs c] ne hs c(2,3)
    unfolding z by simp
qed

text \<open>For a window of 3001 samples the two computations differ: the transform of the whole
  array returns an array with 127 segments, and the loop raises at the assignment of its
  first chunk.\<close>

theorem chunked_staging_counterexample:
  "staged_spectrograms (\<lambda>nperseg noverlap s f t. 0) Re (3, 3001)
     [replicate 3 (replicate 3001 0)] = Inl ValueError \<and>
   map_sum id fst (spectrograms_in_one_call (\<lambda>nperseg noverlap s f t. 0) Re (3, 3001)
     [replicate 3 (replicate 3001 0)]) = Inr [1, 3, 129, 127]"
proof -
  have "\<not> (24::nat) dvd 3001"
    by simp
  then have a: "\<not> (0 < (3::nat) \<and> NPERSEG \<le> 3001 \<and> (NPERSEG - NOVERLAP) dvd (3001::nat))"
    by (simp add: NPERSEG_def NOVERLAP_def)
  have b: "stft_shape NPERSEG NOVERLAP (1, 3, 3001) = Inr [1, 3, 129, 127]"
    using stft_shape_long [of 1 3 3001] by simp
  show ?thesis
    using staging_raises [OF _ a] b by (simp add: one_call_shape)
qed




end
